theory Spec2Isabelle
  imports Complex_Main "HOL-Library.Word"
begin

section \<open>Dense matrices\<close>

text \<open>
  The polynomial and spline modules compute with \<^verbatim>\<open>StaticMatrix<Scalar, Rows, Cols>\<close>, a
  row-major dense matrix (\<^verbatim>\<open>ret[i][j]\<close> is row \<open>i\<close>, column \<open>j\<close>). A matrix is a list
  of rows. The scalar type \<^verbatim>\<open>double\<close> is read as \<^typ>\<open>real\<close>.
\<close>

type_synonym 'a mat = "'a list list"

text \<open>
  Modelled from the spec: the declaration of \<^verbatim>\<open>StaticMatrix\<close> (static_matrix.hpp) is not
  among the sources. A default-constructed matrix holds zeros in every entry, which the
  callers rely on when they assign only some entries of \<^verbatim>\<open>left\<close> and \<^verbatim>\<open>right\<close>.
\<close>

definition zero_mat :: "nat \<Rightarrow> nat \<Rightarrow> 'a::zero mat" where
  "zero_mat r c = replicate r (replicate c 0)"

text \<open>
  The assignment \<^verbatim>\<open>m[i][j] = v\<close>. Every assignment in the modelled code is within the
  bounds of the matrix; outside them the C++ is undefined and the model leaves the matrix
  as it is.
\<close>

definition mat_set :: "'a mat \<Rightarrow> nat \<Rightarrow> nat \<Rightarrow> 'a \<Rightarrow> 'a mat" where
  "mat_set m i j v = m[i := (m ! i)[j := v]]"

text \<open>A matrix has \<open>r\<close> rows of \<open>c\<close> entries each.\<close>

definition dims :: "'a mat \<Rightarrow> nat \<Rightarrow> nat \<Rightarrow> bool" where
  "dims m r c = (length m = r \<and> list_all (\<lambda>row. length row = c) m)"

text \<open>
  Modelled from the spec: the operators \<^verbatim>\<open>*\<close> and \<^verbatim>\<open>+\<close> of \<^verbatim>\<open>StaticMatrix\<close> are
  declared with the type and are not among the sources; they are the matrix product and
  the entry-wise sum, with the dimensions of the template arguments written out
  (\<open>r \<times> n\<close> times \<open>n \<times> c\<close>).
\<close>

definition mat_mul :: "nat \<Rightarrow> nat \<Rightarrow> nat \<Rightarrow> 'a::semiring_0 mat \<Rightarrow> 'a mat \<Rightarrow> 'a mat" where
  "mat_mul r n c a b =
     map (\<lambda>i. map (\<lambda>j. fold (\<lambda>k s. s + a ! i ! k * b ! k ! j) [0..<n] 0) [0..<c]) [0..<r]"

definition mat_add :: "nat \<Rightarrow> nat \<Rightarrow> 'a::plus mat \<Rightarrow> 'a mat \<Rightarrow> 'a mat" where
  "mat_add r c a b = map (\<lambda>i. map (\<lambda>j. a ! i ! j + b ! i ! j) [0..<c]) [0..<r]"

section \<open>Integral of squared monomial derivatives\<close>

text \<open>
  \<^verbatim>\<open>monomial_integral<K, P>()\<close> of the polynomial module. The accumulator \<^verbatim>\<open>c\<close> is a
  \<^verbatim>\<open>std::size_t\<close>, a 64-bit word whose products wrap around; the loop
  \<^verbatim>\<open>for (auto _i = lo; _i <= hi; ++_i) { c *= _i; }\<close> is \<open>mul_range lo hi\<close>. The loop
  counters are natural numbers: they stay below \<open>K + 1\<close>, the side of a matrix that
  exists in memory.
\<close>

definition mul_range :: "nat \<Rightarrow> nat \<Rightarrow> 64 word \<Rightarrow> 64 word" where
  "mul_range lo hi c = fold (\<lambda>k c. c * of_nat k) [lo..<Suc hi] c"

text \<open>The body of the inner loop, for one pair \<open>i \<le> j\<close>.\<close>

definition mi_body :: "nat \<Rightarrow> nat \<Rightarrow> nat \<Rightarrow> real mat \<Rightarrow> real mat" where
  "mi_body P i j ret =
     (let ret1 =
        (if i \<ge> P \<and> j \<ge> P then
           (let c = mul_range (j - P + 1) j (mul_range (i - P + 1) i 1)
            in mat_set ret i j (real (unat c) / real (i + j - 2 * P + 1)))
         else mat_set ret i j 0)
      in mat_set ret1 j i (ret1 ! i ! j))"

definition monomial_integral :: "nat \<Rightarrow> nat \<Rightarrow> real mat" where
  "monomial_integral K P =
     fold (\<lambda>i ret. fold (\<lambda>j ret. mi_body P i j ret) [i..<Suc K] ret)
       [0..<Suc K] (zero_mat (K + 1) (K + 1))"

text \<open>The value the loop body stores at \<open>(i, j)\<close> and copies to \<open>(j, i)\<close>.\<close>

definition mi_val :: "nat \<Rightarrow> nat \<Rightarrow> nat \<Rightarrow> real" where
  "mi_val P i j =
     (if i \<ge> P \<and> j \<ge> P
      then real (unat (mul_range (j - P + 1) j (mul_range (i - P + 1) i 1))) / real (i + j - 2 * P + 1)
      else 0)"

section \<open>B-spline coefficient matrix of the polynomial module\<close>

text \<open>
  \<^verbatim>\<open>detail::bspline_basis<K, Scalar>()\<close>. The template recursion on \<open>K\<close>
  (\<^verbatim>\<open>if constexpr (K == 0)\<close>) is recursion on the natural number; the two loops that
  fill \<^verbatim>\<open>low\<close>, \<^verbatim>\<open>high\<close> and \<^verbatim>\<open>left\<close>, \<^verbatim>\<open>right\<close> are folds over the index ranges.
  The scalar type is any field.
\<close>

fun bspline_basis :: "nat \<Rightarrow> 'a::field mat" where
  "bspline_basis 0 = mat_set (zero_mat 1 1) 0 0 1"
| "bspline_basis (Suc n) =
     (let K = Suc n;
          coeff_mat_km1 = bspline_basis n;
          (low, high) =
            fold (\<lambda>i lh. fold (\<lambda>j (low, high).
                    (mat_set low i j (coeff_mat_km1 ! i ! j),
                     mat_set high (i + 1) j (coeff_mat_km1 ! i ! j))) [0..<K] lh)
              [0..<K] (zero_mat (K + 1) K, zero_mat (K + 1) K);
          (left, right) =
            fold (\<lambda>k (left, right).
                    (let left1 = mat_set left k (k + 1) (of_nat (K - (k + 1)) / of_nat K);
                         left2 = mat_set left1 k k (1 - left1 ! k ! (k + 1));
                         right1 = mat_set right k (k + 1) (1 / of_nat K);
                         right2 = mat_set right1 k k (- (right1 ! k ! (k + 1)))
                     in (left2, right2)))
              [0..<K] (zero_mat K (K + 1), zero_mat K (K + 1))
      in mat_add (K + 1) (K + 1)
           (mat_mul (K + 1) K (K + 1) low left) (mat_mul (K + 1) K (K + 1) high right))"

section \<open>Cumulative spline evaluation of the spline module\<close>

text \<open>
  \<^verbatim>\<open>detail::bspline_coefmat<Scalar, K>()\<close>: the spline module's own recursion for the
  B-spline coefficient matrix.
\<close>

fun bspline_coefmat :: "nat \<Rightarrow> 'a::field mat" where
  "bspline_coefmat 0 = mat_set (zero_mat 1 1) 0 0 1"
| "bspline_coefmat (Suc n) =
     (let K = Suc n;
          coeff_mat_km1 = bspline_coefmat n;
          (low, high) =
            fold (\<lambda>i lh. fold (\<lambda>j (low, high).
                    (mat_set low i j (coeff_mat_km1 ! i ! j),
                     mat_set high (i + 1) j (coeff_mat_km1 ! i ! j))) [0..<K] lh)
              [0..<K] (zero_mat (K + 1) K, zero_mat (K + 1) K);
          (left, right) =
            fold (\<lambda>k (left, right).
                    (let left1 = mat_set left k (k + 1) (of_nat (K - (k + 1)) / of_nat K);
                         left2 = mat_set left1 k k (1 - left1 ! k ! (k + 1));
                         right1 = mat_set right k (k + 1) (1 / of_nat K);
                         right2 = mat_set right1 k k (- (right1 ! k ! (k + 1)))
                     in (left2, right2)))
              [0..<K] (zero_mat K (K + 1), zero_mat K (K + 1))
      in mat_add (K + 1) (K + 1)
           (mat_mul (K + 1) K (K + 1) low left) (mat_mul (K + 1) K (K + 1) high right))"

text \<open>
  Tangent vectors and Jacobians are Eigen vectors and matrices of scalars; a vector is a
  list of reals. The Eigen operations used by \<^verbatim>\<open>cspline_eval\<close> follow.
\<close>

type_synonym vec = "real list"

definition dot :: "vec \<Rightarrow> vec \<Rightarrow> real" where
  "dot a b = sum_list (map2 (*) a b)"

definition vec_scale :: "real \<Rightarrow> vec \<Rightarrow> vec" where
  "vec_scale s v = map (\<lambda>x. s * x) v"

definition vec_add :: "vec \<Rightarrow> vec \<Rightarrow> vec" where
  "vec_add a b = map2 (+) a b"

definition vec_neg :: "vec \<Rightarrow> vec" where
  "vec_neg v = map uminus v"

definition mat_vec :: "real mat \<Rightarrow> vec \<Rightarrow> vec" where
  "mat_vec a v = map (\<lambda>row. dot row v) a"

definition mat_scale :: "real \<Rightarrow> real mat \<Rightarrow> real mat" where
  "mat_scale s a = map (map (\<lambda>x. s * x)) a"

definition mat_neg :: "real mat \<Rightarrow> real mat" where
  "mat_neg a = map (map uminus) a"

text \<open>
  \<^verbatim>\<open>der.block<Dof, Dof>(0, off) += b\<close>: the \<open>d \<times> d\<close> block of \<open>m\<close> that starts at
  column \<open>off\<close> is increased by \<open>b\<close>.
\<close>

definition block_add :: "nat \<Rightarrow> real mat \<Rightarrow> nat \<Rightarrow> real mat \<Rightarrow> real mat" where
  "block_add d m off b =
     map (\<lambda>i. map (\<lambda>j. if off \<le> j \<and> j < off + d \<and> i < d then m ! i ! j + b ! i ! (j - off)
                         else m ! i ! j) [0..<length (m ! i)]) [0..<length m]"

text \<open>
  The group operations \<^verbatim>\<open>lie_traits<G>::Impl\<close> (exp, composition, inverse, identity, Ad,
  ad, dr_exp, dr_expinv) and the difference \<^verbatim>\<open>operator-\<close> of two group elements are
  declared in files that are not among the sources: they are parameters of the model,
  gathered in a record. \<open>exp_impl\<close> and \<open>inverse_impl\<close> are \<^verbatim>\<open>Impl::exp\<close> and
  \<^verbatim>\<open>Impl::inverse\<close>; \<open>rminus\<close> is \<^verbatim>\<open>operator-\<close>.
\<close>

record 'g lie_impl =
  Dof :: nat
  exp_impl :: "vec \<Rightarrow> 'g"
  composition :: "'g \<Rightarrow> 'g \<Rightarrow> 'g"
  inverse_impl :: "'g \<Rightarrow> 'g"
  setIdentity :: "'g"
  Ad :: "'g \<Rightarrow> real mat"
  ad :: "vec \<Rightarrow> real mat"
  dr_exp :: "vec \<Rightarrow> real mat"
  dr_expinv :: "vec \<Rightarrow> real mat"
  rminus :: "'g \<Rightarrow> 'g \<Rightarrow> vec"

text \<open>
  The optional output arguments \<^verbatim>\<open>vel\<close>, \<^verbatim>\<open>acc\<close>, \<^verbatim>\<open>der\<close>: \<open>None\<close> is an empty
  \<^verbatim>\<open>std::optional\<close>, \<open>Some x\<close> a reference to the caller's storage that holds \<open>x\<close>.
  The function returns the storage as it leaves it, together with its result.
\<close>

record outs =
  vel :: "vec option"
  acc :: "vec option"
  der :: "real mat option"

text \<open>
  \<open>SizeMismatch expected got\<close> is the \<^verbatim>\<open>std::runtime_error\<close> the size checks throw;
  \<open>BadOptionalAccess\<close> is what \<^verbatim>\<open>vel.value()\<close> throws on an empty \<^verbatim>\<open>vel\<close>.
\<close>

datatype error = SizeMismatch nat nat | BadOptionalAccess

text \<open>
  The first loop: the powers of \<open>u\<close> and, where requested, their first and second
  derivatives. Entries the source leaves uninitialised are never read; they are zero here.
\<close>

definition monomials :: "nat \<Rightarrow> real \<Rightarrow> bool \<Rightarrow> bool \<Rightarrow> vec \<times> vec \<times> vec" where
  "monomials K u has_vel has_acc =
     fold (\<lambda>k (uvec, duvec, d2uvec).
             (let uvec1 = uvec[k := u * uvec ! (k - 1)];
                  duvec1 = (if has_vel \<or> has_acc then duvec[k := real k * uvec1 ! (k - 1)] else duvec);
                  d2uvec1 = (if (has_vel \<or> has_acc) \<and> has_acc
                             then d2uvec[k := real k * duvec1 ! (k - 1)] else d2uvec)
              in (uvec1, duvec1, d2uvec1)))
       [1..<K + 1]
       ((replicate (K + 1) 0)[0 := 1], replicate (K + 1) 0, replicate (K + 1) 0)"

text \<open>
  The range-for loop over \<^verbatim>\<open>diff_points\<close>, with its counter \<open>j\<close> starting at 1. It
  stops at the first exception and returns the outputs as they are at that point.
\<close>

fun spline_loop ::
  "'g lie_impl \<Rightarrow> real mat \<Rightarrow> vec \<Rightarrow> vec \<Rightarrow> vec \<Rightarrow> nat \<Rightarrow> vec list \<Rightarrow> 'g \<Rightarrow>
     vec option \<Rightarrow> vec option \<Rightarrow> (vec option \<times> vec option) \<times> (error + 'g)" where
  "spline_loop impl M uvec duvec d2uvec j [] g velv accv = ((velv, accv), Inr g)"
| "spline_loop impl M uvec duvec d2uvec j (v # vs) g velv accv =
     (let Btilde = dot uvec (M ! j);
          tmp1 = exp_impl impl (vec_scale Btilde v);
          g1 = composition impl g tmp1
      in if velv \<noteq> None \<or> accv \<noteq> None then
           (case velv of
              None \<Rightarrow> ((velv, accv), Inl BadOptionalAccess)
            | Some w \<Rightarrow>
                (let dBtilde = dot duvec (M ! j);
                     Adm = Ad impl (inverse_impl impl tmp1);
                     vel1 = vec_add (mat_vec Adm w) (vec_scale dBtilde v)
                 in case accv of
                      None \<Rightarrow> spline_loop impl M uvec duvec d2uvec (j + 1) vs g1 (Some vel1) None
                    | Some a \<Rightarrow>
                        (let d2Btilde = dot d2uvec (M ! j);
                             a1 = mat_vec Adm a;
                             adm = ad impl vel1;
                             a2 = vec_add a1 (vec_add (mat_vec (mat_scale dBtilde adm) v)
                                                      (vec_scale d2Btilde v))
                         in spline_loop impl M uvec duvec d2uvec (j + 1) vs g1 (Some vel1) (Some a2))))
         else spline_loop impl M uvec duvec d2uvec (j + 1) vs g1 velv accv)"

text \<open>
  One iteration of the loop \<^verbatim>\<open>for (int j = K; j >= 0; --j)\<close> that fills \<^verbatim>\<open>der\<close>. The
  update \<^verbatim>\<open>-=\<close> of a block adds the negated matrix.
\<close>

definition der_step ::
  "'g lie_impl \<Rightarrow> nat \<Rightarrow> real mat \<Rightarrow> vec \<Rightarrow> vec list \<Rightarrow> nat \<Rightarrow> 'g \<times> real mat \<Rightarrow> 'g \<times> real mat" where
  "der_step impl K M uvec diff_points j zd =
     (let d = Dof impl;
          (z2inv, dm) = zd;
          (z2inv1, dm1) =
            (if j \<noteq> K then
               (let Btilde_jp = dot uvec (M ! (j + 1));
                    vjp = diff_points ! j;
                    sjp = vec_scale Btilde_jp vjp;
                    z2inv_Ad = Ad impl z2inv;
                    dr_exp_sjp = dr_exp impl sjp;
                    ad_vjp = ad impl vjp;
                    dr_expinv_vjp = dr_expinv impl vjp;
                    blk = mat_mul d d d (mat_mul d d d (mat_scale Btilde_jp z2inv_Ad) dr_exp_sjp)
                            (mat_add d d (mat_neg ad_vjp) dr_expinv_vjp);
                    tmp1 = exp_impl impl (vec_neg sjp)
                in (composition impl z2inv tmp1, block_add d dm (j * d) (mat_neg blk)))
             else (z2inv, dm));
          Btilde_j = dot uvec (M ! j)
      in if j \<noteq> 0 then
           (let vj = diff_points ! (j - 1);
                z2inv_Ad = Ad impl z2inv1;
                dr_exp_sj = dr_exp impl (vec_scale Btilde_j vj);
                dr_expinv_vj = dr_expinv impl vj
            in (z2inv1, block_add d dm1 (j * d)
                  (mat_mul d d d (mat_mul d d d (mat_scale Btilde_j z2inv_Ad) dr_exp_sj) dr_expinv_vj)))
         else
           (let z2inv_Ad = Ad impl z2inv1
            in (z2inv1, block_add d dm1 (j * d) (mat_scale Btilde_j z2inv_Ad))))"

definition der_loop :: "'g lie_impl \<Rightarrow> nat \<Rightarrow> real mat \<Rightarrow> vec \<Rightarrow> vec list \<Rightarrow> real mat" where
  "der_loop impl K M uvec diff_points =
     snd (fold (der_step impl K M uvec diff_points) (rev [0..<K + 1])
            (setIdentity impl, zero_mat (Dof impl) (Dof impl * (K + 1))))"

text \<open>The overload that takes the differences \<^verbatim>\<open>diff_points\<close>.\<close>

definition cspline_eval ::
  "nat \<Rightarrow> 'g lie_impl \<Rightarrow> 'g \<Rightarrow> vec list \<Rightarrow> real mat \<Rightarrow> real \<Rightarrow> outs \<Rightarrow> outs \<times> (error + 'g)" where
  "cspline_eval K impl g_0 diff_points cum_coef_mat u out =
     (if length diff_points \<noteq> K then (out, Inl (SizeMismatch K (length diff_points)))
      else
        (let (uvec, duvec, d2uvec) = monomials K u (vel out \<noteq> None) (acc out \<noteq> None) in
         if (vel out \<noteq> None \<or> acc out \<noteq> None) \<and> vel out = None
         then (out, Inl BadOptionalAccess)
         else
           (let vel0 = map_option (\<lambda>_. replicate (Dof impl) 0) (vel out);
                acc0 = map_option (\<lambda>_. replicate (Dof impl) 0) (acc out)
            in case spline_loop impl cum_coef_mat uvec duvec d2uvec 1 diff_points g_0 vel0 acc0 of
                 ((vel1, acc1), Inl e) \<Rightarrow> (out\<lparr>vel := vel1, acc := acc1\<rparr>, Inl e)
               | ((vel1, acc1), Inr g) \<Rightarrow>
                   (out\<lparr>vel := vel1, acc := acc1,
                        der := (case der out of
                                  None \<Rightarrow> None
                                | Some _ \<Rightarrow> Some (der_loop impl K cum_coef_mat uvec diff_points))\<rparr>,
                    Inr g))))"

text \<open>The overload that takes the control points \<^verbatim>\<open>ctrl_points\<close>.\<close>

definition cspline_eval_ctrl ::
  "nat \<Rightarrow> 'g lie_impl \<Rightarrow> 'g list \<Rightarrow> real mat \<Rightarrow> real \<Rightarrow> outs \<Rightarrow> outs \<times> (error + 'g)" where
  "cspline_eval_ctrl K impl ctrl_points cum_coef_mat u out =
     (if length ctrl_points \<noteq> K + 1 then (out, Inl (SizeMismatch (K + 1) (length ctrl_points)))
      else
        (let diff_pts = map (\<lambda>i. rminus impl (ctrl_points ! (i + 1)) (ctrl_points ! i)) [0..<K]
         in cspline_eval K impl (ctrl_points ! 0) diff_pts cum_coef_mat u out))"

text \<open>
  The real line under addition as a one-dimensional group, to run the model on.
\<close>

definition line_impl :: "real lie_impl" where
  "line_impl =
     \<lparr>Dof = 1, exp_impl = (\<lambda>v. v ! 0), composition = (+), inverse_impl = uminus,
      setIdentity = 0, Ad = (\<lambda>_. [[1]]), ad = (\<lambda>_. [[0]]), dr_exp = (\<lambda>_. [[1]]),
      dr_expinv = (\<lambda>_. [[1]]), rminus = (\<lambda>a b. [a - b])\<rparr>"

section \<open>Taylor tails of sine and cosine\<close>

text \<open>
  The functions of \<^verbatim>\<open>namespace detail\<close> that take the squared argument \<open>x2\<close>. The
  threshold \<^verbatim>\<open>eps2\<close> is declared in common.hpp, which is not among the sources: it is a
  parameter of the model. The scalar type is \<^typ>\<open>real\<close>.
\<close>

definition cos_2 :: "real \<Rightarrow> real \<Rightarrow> real" where
  "cos_2 eps2 x2 =
     (if x2 > eps2 then (let x = sqrt x2 in (cos x - 1) / x2)
      else - 1 / 2 + x2 / 24 - x2 * x2 / 720)"

definition sin_3 :: "real \<Rightarrow> real \<Rightarrow> real" where
  "sin_3 eps2 x2 =
     (if x2 > eps2 then (let x = sqrt x2 in (sin x - x) / (x2 * x))
      else - 1 / 6 + x2 / 120 - x2 * x2 / 5040)"

definition cos_4 :: "real \<Rightarrow> real \<Rightarrow> real" where
  "cos_4 eps2 x2 =
     (if x2 > eps2 then (let x = sqrt x2 in (cos x - 1 + x2 / 2) / (x2 * x2))
      else 1 / 24 - x2 / 720 + (x2 * x2) / 40320)"

definition sin_5 :: "real \<Rightarrow> real \<Rightarrow> real" where
  "sin_5 eps2 x2 =
     (if x2 > eps2 then (let x = sqrt x2 in (sin x - x + x2 * x / 6) / (x2 * x2 * x))
      else 1 / 120 - x2 / 5040 + x2 * x2 / 362880)"

definition cos_6 :: "real \<Rightarrow> real \<Rightarrow> real" where
  "cos_6 eps2 x2 =
     (let x4 = x2 * x2 in
      if x2 > eps2 then (let x = sqrt x2 in (cos x - 1 + x2 / 2 - x4 / 24) / (x4 * x2))
      else - 1 / 720 + x2 / 40320 - x4 / 3628800)"

section \<open>The quaternion constructor of SO3 in double precision\<close>

text \<open>
  \<^verbatim>\<open>SO3<double>\<close> stores its coefficients as \<^verbatim>\<open>double\<close>, and the constructor normalises
  its argument in that arithmetic, where a square can underflow or overflow. The scalar
  values are therefore those of IEEE 754 binary64: the finite numbers, the two infinities
  and NaN. The two zeros are the one value \<open>Fin 0\<close>: they compare equal, and the
  constructor never divides by zero, so it cannot tell them apart.
\<close>

datatype scalar = Fin real | PInf | NInf | NaN

text \<open>The power of two \<open>2^e\<close> for an integer exponent \<open>e\<close>.\<close>

definition pow2 :: "int \<Rightarrow> real" where
  "pow2 e = (if 0 \<le> e then 2 ^ nat e else 1 / 2 ^ nat (- e))"

text \<open>Rounding to the nearest integer, a tie going to the even neighbour.\<close>

definition rne :: "real \<Rightarrow> int" where
  "rne x =
     (let f = \<lfloor>x\<rfloor>; d = x - of_int f
      in if d < 1 / 2 then f else if 1 / 2 < d then f + 1 else if even f then f else f + 1)"

text \<open>
  The exponent of the spacing of the doubles around \<open>x\<close>: \<open>2^(-1074)\<close> in the subnormal
  range below \<open>2^(-1022)\<close>, and 52 binary places below the leading bit elsewhere.
\<close>

definition ulp_exp :: "real \<Rightarrow> int" where
  "ulp_exp x = (if \<bar>x\<bar> < pow2 (- 1022) then - 1074 else \<lfloor>log 2 \<bar>x\<bar>\<rfloor> - 52)"

text \<open>
  The double nearest to a real number (round to nearest, ties to even), with overflow to
  an infinity from \<open>2^1024\<close> on.
\<close>

definition rnd :: "real \<Rightarrow> scalar" where
  "rnd x =
     (let u = pow2 (ulp_exp x); r = of_int (rne (x / u)) * u
      in if pow2 1024 \<le> r then PInf else if r \<le> - pow2 1024 then NInf else Fin r)"

text \<open>
  The arithmetic the constructor uses: product, sum, square root, quotient and the
  comparison \<^verbatim>\<open><\<close>, each exact result rounded once.
\<close>

fun fmul :: "scalar \<Rightarrow> scalar \<Rightarrow> scalar" where
  "fmul (Fin x) (Fin y) = rnd (x * y)"
| "fmul NaN b = NaN"
| "fmul a NaN = NaN"
| "fmul (Fin x) PInf = (if x = 0 then NaN else if 0 < x then PInf else NInf)"
| "fmul (Fin x) NInf = (if x = 0 then NaN else if 0 < x then NInf else PInf)"
| "fmul PInf (Fin y) = (if y = 0 then NaN else if 0 < y then PInf else NInf)"
| "fmul NInf (Fin y) = (if y = 0 then NaN else if 0 < y then NInf else PInf)"
| "fmul PInf PInf = PInf"
| "fmul NInf NInf = PInf"
| "fmul PInf NInf = NInf"
| "fmul NInf PInf = NInf"

fun fadd :: "scalar \<Rightarrow> scalar \<Rightarrow> scalar" where
  "fadd (Fin x) (Fin y) = rnd (x + y)"
| "fadd NaN b = NaN"
| "fadd a NaN = NaN"
| "fadd PInf NInf = NaN"
| "fadd NInf PInf = NaN"
| "fadd PInf b = PInf"
| "fadd NInf b = NInf"
| "fadd a PInf = PInf"
| "fadd a NInf = NInf"

fun fsqrt :: "scalar \<Rightarrow> scalar" where
  "fsqrt (Fin x) = (if x < 0 then NaN else rnd (sqrt x))"
| "fsqrt PInf = PInf"
| "fsqrt NInf = NaN"
| "fsqrt NaN = NaN"

fun fdiv :: "scalar \<Rightarrow> scalar \<Rightarrow> scalar" where
  "fdiv (Fin x) (Fin y) =
     (if y = 0 then (if x = 0 then NaN else if 0 < x then PInf else NInf) else rnd (x / y))"
| "fdiv NaN b = NaN"
| "fdiv a NaN = NaN"
| "fdiv (Fin x) b = Fin 0"
| "fdiv PInf (Fin y) = (if 0 \<le> y then PInf else NInf)"
| "fdiv NInf (Fin y) = (if 0 \<le> y then NInf else PInf)"
| "fdiv a b = NaN"

fun flt :: "scalar \<Rightarrow> scalar \<Rightarrow> bool" where
  "flt (Fin x) (Fin y) = (x < y)"
| "flt NaN b = False"
| "flt a NaN = False"
| "flt NInf b = (b \<noteq> NInf)"
| "flt a PInf = (a \<noteq> PInf)"
| "flt a b = False"

text \<open>
  The coefficients of an \<^verbatim>\<open>SO3\<close> element, in Eigen's quaternion order \<open>x, y, z, w\<close>.
\<close>

record quat =
  qx :: scalar
  qy :: scalar
  qz :: scalar
  qw :: scalar

text \<open>
  \<^verbatim>\<open>squaredNorm()\<close> of the Eigen library, the sum of the squares of the coefficients. The
  library chooses the order of the additions; they are in index order here.
\<close>

definition squaredNorm :: "quat \<Rightarrow> scalar" where
  "squaredNorm q =
     fadd (fadd (fadd (fmul (qx q) (qx q)) (fmul (qy q) (qy q))) (fmul (qz q) (qz q)))
          (fmul (qw q) (qw q))"

text \<open>
  \<^verbatim>\<open>quat.normalized()\<close> of the Eigen library: with \<^verbatim>\<open>z = squaredNorm()\<close>, the coefficients
  divided by \<^verbatim>\<open>sqrt(z)\<close> if \<^verbatim>\<open>z > 0\<close>, the coefficients themselves otherwise.
\<close>

definition normalized :: "quat \<Rightarrow> quat" where
  "normalized q =
     (let z = squaredNorm q
      in if flt (Fin 0) z
         then (let s = fsqrt z
               in \<lparr>qx = fdiv (qx q) s, qy = fdiv (qy q) s, qz = fdiv (qz q) s, qw = fdiv (qw q) s\<rparr>)
         else q)"

text \<open>\<^verbatim>\<open>coeffs *= s\<close>.\<close>

definition quat_scale :: "quat \<Rightarrow> scalar \<Rightarrow> quat" where
  "quat_scale q s = \<lparr>qx = fmul (qx q) s, qy = fmul (qy q) s, qz = fmul (qz q) s, qw = fmul (qw q) s\<rparr>"

text \<open>The constructor \<^verbatim>\<open>SO3(const Eigen::QuaternionBase<Derived> & quat)\<close>.\<close>

definition SO3 :: "quat \<Rightarrow> quat" where
  "SO3 quat = (let m_coeffs = normalized quat
               in if flt (qw m_coeffs) (Fin 0) then quat_scale m_coeffs (Fin (- 1)) else m_coeffs)"

text \<open>The double \<open>2^(-600)\<close>, \<^verbatim>\<open>std::ldexp(1.0, -600)\<close>.\<close>

definition tiny :: real where
  "tiny = 1 / 2 ^ 600"

section \<open>Properties of the dense matrices\<close>

lemma dims_zero_mat: "dims (zero_mat r c) r c"
  by (simp add: dims_def zero_mat_def list_all_iff)

lemma zero_mat_nth: "a < r \<Longrightarrow> b < c \<Longrightarrow> zero_mat r c ! a ! b = 0"
  by (simp add: zero_mat_def)

lemma dims_row: "dims m r c \<Longrightarrow> a < r \<Longrightarrow> length (m ! a) = c"
  by (simp add: dims_def list_all_length)

lemma dims_mat_set: "dims m r c \<Longrightarrow> dims (mat_set m i j v) r c"
proof (cases "i < length m")
  case True
  assume "dims m r c"
  with True show ?thesis
    by (auto simp: dims_def mat_set_def list_all_length nth_list_update)
next
  case False
  assume "dims m r c"
  with False show ?thesis
    by (simp add: dims_def mat_set_def list_update_beyond not_less)
qed

lemma mat_set_nth:
  assumes "dims m r c" "i < r" "j < c" "a < r" "b < c"
  shows "mat_set m i j v ! a ! b = (if a = i \<and> b = j then v else m ! a ! b)"
  using assms by (auto simp: mat_set_def dims_def list_all_length nth_list_update)

lemma if_twice: "(if B then v else if A then v else r) = (if A \<or> B then v else r)"
  by simp

lemma mi_body_eq:
  assumes "dims ret r c" "i < r" "j < c"
  shows "mi_body P i j ret = mat_set (mat_set ret i j (mi_val P i j)) j i (mi_val P i j)"
proof -
  have "mat_set ret i j v ! i ! j = v" for v
    using mat_set_nth [OF assms assms(2,3)] by simp
  then show ?thesis
    unfolding mi_body_def mi_val_def Let_def by auto
qed

lemma dims_mi_body:
  assumes "dims ret n n" "i < n" "j < n"
  shows "dims (mi_body P i j ret) n n"
  unfolding mi_body_eq [OF assms] by (intro dims_mat_set assms(1))

lemma mi_body_nth:
  assumes "dims ret n n" "i < n" "j < n" "a < n" "b < n"
  shows "mi_body P i j ret ! a ! b =
           (if (a = i \<and> b = j) \<or> (a = j \<and> b = i) then mi_val P i j else ret ! a ! b)"
proof -
  let ?v = "mi_val P i j"
  have d: "dims (mat_set ret i j ?v) n n"
    using assms(1) by (rule dims_mat_set)
  have e1: "mi_body P i j ret ! a ! b = mat_set (mat_set ret i j ?v) j i ?v ! a ! b"
    by (simp only: mi_body_eq [OF assms(1-3)])
  have e2: "mat_set (mat_set ret i j ?v) j i ?v ! a ! b =
              (if a = j \<and> b = i then ?v else mat_set ret i j ?v ! a ! b)"
    using d assms(3,2,4,5) by (rule mat_set_nth)
  have e3: "mat_set ret i j ?v ! a ! b = (if a = i \<and> b = j then ?v else ret ! a ! b)"
    using assms by (rule mat_set_nth)
  show ?thesis
    unfolding e1 e2 e3 by (rule if_twice)
qed

lemma inner_loop:
  assumes "dims ret n n" "i < n" "m \<le> n"
  shows "dims (fold (\<lambda>j ret. mi_body P i j ret) [i..<m] ret) n n \<and>
         (\<forall>a<n. \<forall>b<n. fold (\<lambda>j ret. mi_body P i j ret) [i..<m] ret ! a ! b =
            (if (a = i \<and> i \<le> b \<and> b < m) \<or> (b = i \<and> i \<le> a \<and> a < m)
             then mi_val P (min a b) (max a b) else ret ! a ! b))"
  using assms(3)
proof (induction m)
  case 0
  then show ?case using assms(1) by simp
next
  case (Suc m)
  show ?case
  proof (cases "i \<le> m")
    case False
    then show ?thesis using assms(1) by auto
  next
    case True
    let ?r = "fold (\<lambda>j ret. mi_body P i j ret) [i..<m] ret"
    have m: "m < n" using Suc.prems by simp
    have IH: "dims ?r n n"
      "\<And>a b. a < n \<Longrightarrow> b < n \<Longrightarrow> ?r ! a ! b =
            (if (a = i \<and> i \<le> b \<and> b < m) \<or> (b = i \<and> i \<le> a \<and> a < m)
             then mi_val P (min a b) (max a b) else ret ! a ! b)"
      using Suc.IH m by simp_all
    have step: "fold (\<lambda>j ret. mi_body P i j ret) [i..<Suc m] ret = mi_body P i m ?r"
      using True by simp
    have d: "dims (mi_body P i m ?r) n n"
      using IH(1) assms(2) m by (rule dims_mi_body)
    have e: "mi_body P i m ?r ! a ! b =
            (if (a = i \<and> i \<le> b \<and> b < Suc m) \<or> (b = i \<and> i \<le> a \<and> a < Suc m)
             then mi_val P (min a b) (max a b) else ret ! a ! b)" if "a < n" "b < n" for a b
      using that True
      by (auto simp: mi_body_nth [OF IH(1) assms(2) m] IH(2) min_def max_def)
    show ?thesis unfolding step using d e by blast
  qed
qed

lemma outer_loop:
  assumes "m \<le> n"
  shows "dims (fold (\<lambda>i ret. fold (\<lambda>j ret. mi_body P i j ret) [i..<n] ret) [0..<m] (zero_mat n n)) n n \<and>
         (\<forall>a<n. \<forall>b<n.
            fold (\<lambda>i ret. fold (\<lambda>j ret. mi_body P i j ret) [i..<n] ret) [0..<m] (zero_mat n n) ! a ! b =
            (if min a b < m then mi_val P (min a b) (max a b) else 0))"
  using assms
proof (induction m)
  case 0
  then show ?case by (simp add: dims_zero_mat zero_mat_nth)
next
  case (Suc m)
  let ?r = "fold (\<lambda>i ret. fold (\<lambda>j ret. mi_body P i j ret) [i..<n] ret) [0..<m] (zero_mat n n)"
  have m: "m < n" using Suc.prems by simp
  have IH: "dims ?r n n"
    "\<And>a b. a < n \<Longrightarrow> b < n \<Longrightarrow> ?r ! a ! b = (if min a b < m then mi_val P (min a b) (max a b) else 0)"
    using Suc.IH m by simp_all
  note inner = inner_loop [OF IH(1) m order_refl, of P]
  have step: "fold (\<lambda>i ret. fold (\<lambda>j ret. mi_body P i j ret) [i..<n] ret) [0..<Suc m] (zero_mat n n)
              = fold (\<lambda>j ret. mi_body P m j ret) [m..<n] ?r"
    by simp
  have e: "fold (\<lambda>j ret. mi_body P m j ret) [m..<n] ?r ! a ! b =
             (if min a b < Suc m then mi_val P (min a b) (max a b) else 0)" if "a < n" "b < n" for a b
    using that inner IH(2) by (auto simp: min_def max_def)
  show ?case unfolding step using inner e by blast
qed

lemma monomial_integral_nth:
  assumes "i \<le> K" "j \<le> K"
  shows "monomial_integral K P ! i ! j = mi_val P (min i j) (max i j)"
proof -
  have "i < Suc K" "j < Suc K" using assms by simp_all
  moreover have "min i j < Suc K" using assms by simp
  ultimately show ?thesis
    using outer_loop [of "Suc K" "Suc K" P] by (simp add: monomial_integral_def del: upt_Suc)
qed

lemma monomial_integral_dims: "dims (monomial_integral K P) (K + 1) (K + 1)"
  using outer_loop [of "Suc K" "Suc K" P] by (simp add: monomial_integral_def del: upt_Suc)

section \<open>The monomial integral matrix is symmetric\<close>

lemma monomial_integral_3_2:
  "monomial_integral 3 2 = [[0, 0, 0, 0], [0, 0, 0, 0], [0, 0, 4, 6], [0, 0, 6, 12]]"
  by code_simp

text \<open>
  Claim C9. For every maximal degree \<open>K\<close> and differentiation order \<open>P\<close>, the matrix
  returned by \<^verbatim>\<open>monomial_integral<K, P>()\<close> is symmetric: entry \<open>(i, j)\<close> equals entry
  \<open>(j, i)\<close> for all \<open>i, j \<le> K\<close>, and entry \<open>(i, j)\<close> is zero whenever \<open>i < P\<close> or
  \<open>j < P\<close>. This holds also where the 64-bit product \<^verbatim>\<open>c\<close> wraps around.
\<close>

theorem monomial_integral_symmetric:
  assumes "i \<le> K" "j \<le> K"
  shows "monomial_integral K P ! i ! j = monomial_integral K P ! j ! i \<and>
         (i < P \<or> j < P \<longrightarrow> monomial_integral K P ! i ! j = 0)"
  using assms by (auto simp: monomial_integral_nth min.commute max.commute mi_val_def min_def)

theorem monomial_integral_symmetric_witness:
  "monomial_integral 3 2 ! 2 ! 3 = monomial_integral 3 2 ! 3 ! 2 \<and>
   monomial_integral 3 2 ! 1 ! 3 = 0"
  using monomial_integral_symmetric [of 2 3 3 2] monomial_integral_symmetric [of 1 3 3 2] by simp

section \<open>The two B-spline recursions agree\<close>

lemma bspline_basis_3:
  "(bspline_basis 3 :: real mat) =
     [[1 / 6, 2 / 3, 1 / 6, 0], [- 1 / 2, 0, 1 / 2, 0],
      [1 / 2, - 1, 1 / 2, 0], [- 1 / 6, 1 / 2, - 1 / 2, 1 / 6]]"
  by code_simp

text \<open>
  Claim C10. For every degree \<open>K\<close> and scalar type, the matrix computed by the polynomial
  module's \<^verbatim>\<open>detail::bspline_basis<K, Scalar>()\<close> equals the matrix computed by the spline
  module's \<^verbatim>\<open>detail::bspline_coefmat<Scalar, K>()\<close>.
\<close>

theorem bspline_basis_eq_coefmat: "bspline_basis K = (bspline_coefmat K :: 'a::field mat)"
  by (induction K) simp_all

theorem bspline_basis_eq_coefmat_witness:
  "bspline_basis 2 = (bspline_coefmat 2 :: real mat)"
  by (rule bspline_basis_eq_coefmat)

section \<open>Size errors of the spline evaluation\<close>

lemma cspline_eval_line:
  "cspline_eval 2 line_impl 2 [[3], [5]] [[1, 0, 0], [1 / 2, 1, - 1 / 2], [0, 0, 1 / 2]] (1 / 2)
     \<lparr>vel = Some [7], acc = Some [9], der = Some [[5, 5]]\<rparr> =
   (\<lparr>vel = Some [4], acc = Some [2], der = Some [[1 / 8, 3 / 4, 1 / 8]]\<rparr>, Inr (21 / 4))"
  by code_simp

lemma cspline_eval_no_vel:
  "cspline_eval 2 line_impl 2 [[3], [5]] [[1, 0, 0], [1 / 2, 1, - 1 / 2], [0, 0, 1 / 2]] (1 / 2)
     \<lparr>vel = None, acc = Some [9], der = None\<rparr> =
   (\<lparr>vel = None, acc = Some [9], der = None\<rparr>, Inl BadOptionalAccess)"
  by code_simp

text \<open>
  Claim C8. Whenever \<^verbatim>\<open>cspline_eval\<close> is called with a \<^verbatim>\<open>diff_points\<close> range whose size
  differs from \<open>K\<close>, or with a \<^verbatim>\<open>ctrl_points\<close> range whose size differs from \<open>K + 1\<close>,
  it throws the size error at once: the output arguments \<^verbatim>\<open>vel\<close>, \<^verbatim>\<open>acc\<close> and \<^verbatim>\<open>der\<close>
  are left as the caller passed them and no group value is returned.
\<close>

theorem cspline_eval_size_error:
  "(length diff_points \<noteq> K \<longrightarrow>
      cspline_eval K impl g_0 diff_points cum_coef_mat u out =
        (out, Inl (SizeMismatch K (length diff_points)))) \<and>
   (length ctrl_points \<noteq> K + 1 \<longrightarrow>
      cspline_eval_ctrl K impl ctrl_points cum_coef_mat u out =
        (out, Inl (SizeMismatch (K + 1) (length ctrl_points))))"
  by (simp add: cspline_eval_def cspline_eval_ctrl_def)

theorem cspline_eval_size_error_witness:
  "cspline_eval 2 line_impl 2 [[3]] [[1, 0, 0], [1 / 2, 1, - 1 / 2], [0, 0, 1 / 2]] (1 / 2)
     \<lparr>vel = Some [7], acc = Some [9], der = Some [[5, 5]]\<rparr> =
   (\<lparr>vel = Some [7], acc = Some [9], der = Some [[5, 5]]\<rparr>, Inl (SizeMismatch 2 1)) \<and>
   cspline_eval_ctrl 2 line_impl [2, 5] [[1, 0, 0], [1 / 2, 1, - 1 / 2], [0, 0, 1 / 2]] (1 / 2)
     \<lparr>vel = Some [7], acc = Some [9], der = Some [[5, 5]]\<rparr> =
   (\<lparr>vel = Some [7], acc = Some [9], der = Some [[5, 5]]\<rparr>, Inl (SizeMismatch 3 2))"
  using cspline_eval_size_error
          [of "[[3]]" 2 line_impl 2 "[[1, 0, 0], [1 / 2, 1, - 1 / 2], [0, 0, 1 / 2]]" "1 / 2"
              "\<lparr>vel = Some [7], acc = Some [9], der = Some [[5, 5]]\<rparr>" "[2, 5]"]
  by simp

section \<open>Branch selection of the Taylor tails\<close>

lemma cos_abs_real: "cos \<bar>x\<bar> = cos x" for x :: real
  by (simp add: abs_if)

lemma odd_ratio:
  fixes x :: real
  assumes "f (- x) = - f x"
  shows "f \<bar>x\<bar> / (d * \<bar>x\<bar>) = f x / (d * x)"
  using assms by (cases "x < 0") (simp_all add: abs_if)

lemma pow5: "x ^ 5 = x * x * (x * x) * x" for x :: real
  by (simp add: eval_nat_numeral)

lemma pow6: "x ^ 6 = x * x * (x * x) * (x * x)" for x :: real
  by (simp add: eval_nat_numeral)

lemma pow4: "x ^ 4 = x * x * (x * x)" for x :: real
  by (simp add: eval_nat_numeral)

lemma pow3: "x ^ 3 = x * x * x" for x :: real
  by (simp add: eval_nat_numeral)

lemma pow2: "x ^ 2 = x * x" for x :: real
  by (simp add: eval_nat_numeral)

lemma cos_2_closed: "eps2 < x * x \<Longrightarrow> cos_2 eps2 (x * x) = (cos x - 1) / x ^ 2"
  unfolding pow2 by (simp add: cos_2_def cos_abs_real)

lemma sin_3_closed: "eps2 < x * x \<Longrightarrow> sin_3 eps2 (x * x) = (sin x - x) / x ^ 3"
  unfolding pow3 using odd_ratio [of "\<lambda>t. sin t - t" x "x * x"]
  by (simp add: sin_3_def)

lemma cos_4_closed: "eps2 < x * x \<Longrightarrow> cos_4 eps2 (x * x) = (cos x - 1 + x ^ 2 / 2) / x ^ 4"
  unfolding pow2 pow4 by (simp add: cos_4_def cos_abs_real)

lemma sin_5_closed:
  "eps2 < x * x \<Longrightarrow> sin_5 eps2 (x * x) = (sin x - x + x ^ 3 / 6) / x ^ 5"
  unfolding pow3 pow5 using odd_ratio [of "\<lambda>t. sin t - t + x * x * t / 6" x "x * x * (x * x)"]
  by (simp add: sin_5_def)

lemma cos_6_closed:
  "eps2 < x * x \<Longrightarrow>
     cos_6 eps2 (x * x) = (cos x - 1 + x ^ 2 / 2 - x ^ 4 / 24) / x ^ 6"
  unfolding pow2 pow4 pow6 by (simp add: cos_6_def cos_abs_real Let_def)


text \<open>
  Claim C4. For every squared argument \<open>x2 \<ge> 0\<close>, written as \<open>x2 = x * x\<close> for an
  unsquared argument \<open>x\<close> of either sign, each Taylor-tail primitive chooses its branch by
  comparing \<open>x2\<close> with the threshold \<open>eps2\<close> only: above the threshold it returns the
  closed-form ratio (\<open>(cos x - 1) / x\<^sup>2\<close> for \<^verbatim>\<open>cos_2\<close>, \<open>(sin x - x) / x\<^sup>3\<close> for
  \<^verbatim>\<open>sin_3\<close>, and so on), the same for \<open>x\<close> and \<open>- x\<close>; otherwise it returns the truncated
  Taylor series in \<open>x2\<close>.
\<close>

theorem taylor_tail_selection:
  fixes x :: real
  assumes "x2 = x * x"
  shows "(eps2 < x2 \<longrightarrow>
            cos_2 eps2 x2 = (cos x - 1) / x ^ 2 \<and>
            sin_3 eps2 x2 = (sin x - x) / x ^ 3 \<and>
            cos_4 eps2 x2 = (cos x - 1 + x ^ 2 / 2) / x ^ 4 \<and>
            sin_5 eps2 x2 = (sin x - x + x ^ 3 / 6) / x ^ 5 \<and>
            cos_6 eps2 x2 = (cos x - 1 + x ^ 2 / 2 - x ^ 4 / 24) / x ^ 6) \<and>
         (x2 \<le> eps2 \<longrightarrow>
            cos_2 eps2 x2 = - 1 / 2 + x2 / 24 - x2 * x2 / 720 \<and>
            sin_3 eps2 x2 = - 1 / 6 + x2 / 120 - x2 * x2 / 5040 \<and>
            cos_4 eps2 x2 = 1 / 24 - x2 / 720 + x2 * x2 / 40320 \<and>
            sin_5 eps2 x2 = 1 / 120 - x2 / 5040 + x2 * x2 / 362880 \<and>
            cos_6 eps2 x2 = - 1 / 720 + x2 / 40320 - x2 * x2 / 3628800)"
proof (intro conjI impI)
  assume "eps2 < x2"
  then have big: "eps2 < x * x" using assms by simp
  show "cos_2 eps2 x2 = (cos x - 1) / x ^ 2"
    unfolding assms using big by (rule cos_2_closed)
  show "sin_3 eps2 x2 = (sin x - x) / x ^ 3"
    unfolding assms using big by (rule sin_3_closed)
  show "cos_4 eps2 x2 = (cos x - 1 + x ^ 2 / 2) / x ^ 4"
    unfolding assms using big by (rule cos_4_closed)
  show "sin_5 eps2 x2 = (sin x - x + x ^ 3 / 6) / x ^ 5"
    unfolding assms using big by (rule sin_5_closed)
  show "cos_6 eps2 x2 = (cos x - 1 + x ^ 2 / 2 - x ^ 4 / 24) / x ^ 6"
    unfolding assms using big by (rule cos_6_closed)
next
  assume small: "x2 \<le> eps2"
  then show "cos_2 eps2 x2 = - 1 / 2 + x2 / 24 - x2 * x2 / 720"
    by (simp add: cos_2_def)
  from small show "sin_3 eps2 x2 = - 1 / 6 + x2 / 120 - x2 * x2 / 5040"
    by (simp add: sin_3_def)
  from small show "cos_4 eps2 x2 = 1 / 24 - x2 / 720 + x2 * x2 / 40320"
    by (simp add: cos_4_def)
  from small show "sin_5 eps2 x2 = 1 / 120 - x2 / 5040 + x2 * x2 / 362880"
    by (simp add: sin_5_def)
  from small show "cos_6 eps2 x2 = - 1 / 720 + x2 / 40320 - x2 * x2 / 3628800"
    by (simp add: cos_6_def Let_def)
qed

theorem taylor_tail_selection_witness:
  "cos_2 (1 / 10 ^ 8) 4 = (cos (- 2) - 1) / (- 2) ^ 2 \<and>
   sin_3 (1 / 10 ^ 8) 4 = (sin (- 2) - (- 2)) / (- 2) ^ 3 \<and>
   cos_2 (1 / 10 ^ 8) 0 = - 1 / 2 \<and>
   sin_3 (1 / 10 ^ 8) 0 = - 1 / 6"
  using taylor_tail_selection [of 4 "- 2" "1 / 10 ^ 8"]
        taylor_tail_selection [of 0 0 "1 / 10 ^ 8"]
  by simp

section \<open>The quaternion constructor on a quaternion whose squares underflow\<close>

lemma rne_small: "0 \<le> x \<Longrightarrow> x < 1 / 2 \<Longrightarrow> rne x = 0"
proof -
  assume a: "0 \<le> x" "x < 1 / 2"
  then have "\<lfloor>x\<rfloor> = 0" by (simp add: floor_eq_iff)
  with a show ?thesis by (simp add: rne_def)
qed

lemma rne_of_int: "rne (of_int n) = n"
  by (simp add: rne_def)

lemma rnd_0: "rnd 0 = Fin 0"
  by (simp add: rnd_def Let_def rne_small pow2_def)

lemma rnd_underflow:
  assumes "0 \<le> x" "x < 1 / 2 ^ 1075"
  shows "rnd x = Fin 0"
proof -
  have "(1::real) / 2 ^ 1075 < 1 / 2 ^ 1022" by simp
  with assms have sub: "\<bar>x\<bar> < pow2 (- 1022)" by (simp add: pow2_def)
  then have u: "ulp_exp x = - 1074" by (simp add: ulp_exp_def)
  have "x / pow2 (- 1074) = x * 2 ^ 1074" by (simp add: pow2_def)
  also have "\<dots> < 1 / 2 ^ 1075 * 2 ^ 1074"
    using assms(2) by (rule mult_strict_right_mono) simp
  also have "\<dots> = (1::real) / 2" by simp
  finally have lt: "x / pow2 (- 1074) < 1 / 2" .
  have ge: "0 \<le> x / pow2 (- 1074)" using assms(1) by (simp add: pow2_def)
  have "rne (x / pow2 (- 1074)) = 0" using ge lt by (rule rne_small)
  then show ?thesis by (simp add: rnd_def Let_def u pow2_def)
qed

lemma log2_pow: "log 2 (1 / 2 ^ n) = - real n"
  by (simp add: log_divide log_nat_power)

lemma tiny_pos: "0 < tiny"
  by (simp add: tiny_def)

lemma rnd_pow2_exact:
  assumes x: "x = s * (1 / 2 ^ 600)" and s: "s = 1 \<or> s = - 1"
  shows "rnd x = Fin x"
proof -
  have ab: "\<bar>x\<bar> = 1 / 2 ^ 600" using x s by auto
  have nsub: "\<not> \<bar>x\<bar> < pow2 (- 1022)" unfolding ab by (simp add: pow2_def)
  have "\<lfloor>log 2 \<bar>x\<bar>\<rfloor> = - 600"
    by (simp only: ab log2_pow) simp
  with nsub have u: "ulp_exp x = - 652" by (simp add: ulp_exp_def)
  have q: "x / pow2 (- 652) = of_int (if s = 1 then 2 ^ 52 else - (2 ^ 52))"
    using x s by (auto simp: pow2_def)
  have r: "rne (x / pow2 (- 652)) = (if s = 1 then 2 ^ 52 else - (2 ^ 52))"
    unfolding q by (rule rne_of_int)
  have v: "of_int (if s = 1 then 2 ^ 52 else - (2 ^ 52)) * pow2 (- 652) = x"
    using x s by (auto simp: pow2_def)
  have "\<bar>x\<bar> < pow2 1024" unfolding ab by (simp add: pow2_def)
  then have small: "\<not> pow2 1024 \<le> x" "\<not> x \<le> - pow2 1024"
    by (simp_all add: abs_less_iff)
  show ?thesis
    unfolding rnd_def Let_def u r v using small by simp
qed

lemma rnd_tiny: "rnd tiny = Fin tiny"
  by (rule rnd_pow2_exact [where s = 1]) (simp_all add: tiny_def)

lemma rnd_neg_tiny: "rnd (- tiny) = Fin (- tiny)"
  by (rule rnd_pow2_exact [where s = "- 1"]) (simp_all add: tiny_def)

lemma rnd_tiny_square: "rnd (tiny * tiny) = Fin 0"
  by (rule rnd_underflow) (simp_all add: tiny_def)

lemma squaredNorm_tiny:
  "squaredNorm \<lparr>qx = Fin tiny, qy = Fin 0, qz = Fin 0, qw = Fin (- tiny)\<rparr> = Fin 0"
  by (simp add: squaredNorm_def rnd_0 rnd_tiny_square)

lemma squaredNorm_tiny_result:
  "squaredNorm \<lparr>qx = Fin (- tiny), qy = Fin 0, qz = Fin 0, qw = Fin tiny\<rparr> = Fin 0"
  by (simp add: squaredNorm_def rnd_0 rnd_tiny_square)

lemma SO3_tiny:
  "SO3 \<lparr>qx = Fin tiny, qy = Fin 0, qz = Fin 0, qw = Fin (- tiny)\<rparr> =
     \<lparr>qx = Fin (- tiny), qy = Fin 0, qz = Fin 0, qw = Fin tiny\<rparr>"
  using tiny_pos
  by (simp add: SO3_def normalized_def Let_def squaredNorm_tiny quat_scale_def rnd_0 rnd_tiny
      rnd_neg_tiny)

text \<open>
  Claim C7 says that every SO3 element produced by the public constructors, among them
  the construction from any nonzero quaternion, has coefficients of unit norm and a
  non-negative scalar coefficient \<open>w\<close>; the class documents the same constraint and notes
  that the input is normalised inside the constructor. In double precision the
  constructor breaks it: for the nonzero quaternion \<open>(x, y, z, w) = (2^(-600), 0, 0, - 2^(-600))\<close>
  every square underflows to zero, \<^verbatim>\<open>normalized()\<close> finds the squared norm 0 and returns
  its input, and the constructor only flips the sign. The stored coefficients are
  \<open>(- 2^(-600), 0, 0, 2^(-600))\<close>, whose squared norm is 0 in double precision, not 1.
\<close>

theorem SO3_underflow:
  "SO3 \<lparr>qx = Fin tiny, qy = Fin 0, qz = Fin 0, qw = Fin (- tiny)\<rparr> =
     \<lparr>qx = Fin (- tiny), qy = Fin 0, qz = Fin 0, qw = Fin tiny\<rparr> \<and>
   squaredNorm (SO3 \<lparr>qx = Fin tiny, qy = Fin 0, qz = Fin 0, qw = Fin (- tiny)\<rparr>) = Fin 0 \<and>
   squaredNorm (SO3 \<lparr>qx = Fin tiny, qy = Fin 0, qz = Fin 0, qw = Fin (- tiny)\<rparr>) \<noteq> Fin 1"
  by (simp add: SO3_tiny squaredNorm_tiny_result)

end
